theory Spec2Isabelle
  imports Main
begin

section \<open>Python values, exceptions and effectful calls\<close>

text \<open>
  The notebooks are Python. The values that flow through their functions are \<open>None\<close>,
  integers, strings, tuples and lists; on these Python's \<open>==\<close> is structural and never
  identifies values of two different types, so it is HOL's equality on \<open>pyval\<close>
  (\<open>[(1,)] == 1\<close> is \<open>False\<close>).
\<close>

datatype pyval = PNone | PInt int | PStr string | PTuple "pyval list" | PList "pyval list"

text \<open>
  Two kinds of exception occur: the \<open>assert\<close> statement raises \<open>AssertionError\<close>, and
  the database driver raises its own errors, which carry a message.
\<close>

datatype exn = AssertionError | DatabaseError string

text \<open>
  A call runs on a state and either returns a value or raises; the state it leaves behind
  is kept in both cases, because what was written to the database before an exception
  stays written.
\<close>

type_synonym ('a, 's) action = "'s \<Rightarrow> (exn + 'a) \<times> 's"

definition returns :: "'a \<Rightarrow> ('a, 's) action" where
  "returns v s = (Inr v, s)"

definition raise :: "exn \<Rightarrow> ('a, 's) action" where
  "raise e s = (Inl e, s)"

text \<open>Two statements in sequence: an exception in the first skips the second.\<close>

definition and_then :: "('a, 's) action \<Rightarrow> ('a \<Rightarrow> ('b, 's) action) \<Rightarrow> ('b, 's) action" where
  "and_then m f s = (case m s of (Inl e, s') \<Rightarrow> (Inl e, s') | (Inr v, s') \<Rightarrow> f v s')"

section \<open>The cursor\<close>

text \<open>
  Every function of the notebooks talks to a global \<open>cursor\<close> that the notebooks obtain
  from the driver (\<open>cursor = conn.cursor()\<close>) and never define. It is a parameter here:
  three operations on a state of any type. \<open>execute(statement)\<close> without parameters is
  \<open>execute\<close> with the empty parameter list. The notebooks call \<open>commit\<close> on the
  cursor, so the cursor is taken to offer it.
\<close>

record 's cursor =
  execute :: "string \<Rightarrow> pyval list \<Rightarrow> (unit, 's) action"
  fetchall :: "(pyval, 's) action"
  commit :: "(unit, 's) action"

section \<open>Notebook 1: querying movies by genre\<close>

text \<open>
  First version:
  \<^verbatim>\<open>
  def movies_by_genre(genre):
      cursor.execute(f"SELECT * FROM movies WHERE genre = {genre};")
      movies = cursor.fetchall()
  \<close>
  The f-string splices the text of \<open>genre\<close> into the statement. The function has no
  \<open>return\<close>, so a call that does not raise evaluates to \<open>None\<close>.
\<close>

definition movies_by_genre_fstring :: "'s cursor \<Rightarrow> string \<Rightarrow> (pyval, 's) action" where
  "movies_by_genre_fstring cursor genre =
     and_then (execute cursor (''SELECT * FROM movies WHERE genre = '' @ genre @ '';'') [])
       (\<lambda>_. and_then (fetchall cursor) (\<lambda>movies. returns PNone))"

text \<open>
  Second version:
  \<^verbatim>\<open>
  def movies_by_genre(genre):
      cursor.execute(f"SELECT * FROM movies WHERE genre = %s;", (genre,))
      movies = cursor.fetchall()
  \<close>
  The f-string has no replacement field, so the statement is a constant, and \<open>genre\<close> is
  the only element of the parameter tuple.
\<close>

definition movies_by_genre_param :: "'s cursor \<Rightarrow> string \<Rightarrow> (pyval, 's) action" where
  "movies_by_genre_param cursor genre =
     and_then (execute cursor ''SELECT * FROM movies WHERE genre = %s;'' [PStr genre])
       (\<lambda>_. and_then (fetchall cursor) (\<lambda>movies. returns PNone))"

subsection \<open>What the store makes of a statement\<close>

text \<open>
  Modelled from the spec: the store's reading of a statement text, which belongs to the
  driver and the server and is in no notebook. The spec's glossary has untrusted input
  "interpreted as additional commands" when it is part of the statement string, and
  placeholders "bound to separately-passed values" otherwise. So the commands of a
  submission are read off the statement text alone: it is cut at every semicolon that is
  not inside a quoted literal, and pieces of blanks only are dropped. The parameters
  travel beside the commands as values.
\<close>

fun split_commands :: "bool \<Rightarrow> string \<Rightarrow> string \<Rightarrow> string list" where
  "split_commands quoted cmd [] = [rev cmd]"
| "split_commands quoted cmd (c # cs) =
     (if c = CHR 0x27 then split_commands (\<not> quoted) (c # cmd) cs
      else if c = CHR '';'' \<and> \<not> quoted then rev cmd # split_commands False [] cs
      else split_commands quoted (c # cmd) cs)"

definition blank :: "string \<Rightarrow> bool" where
  "blank cmd = (filter (\<lambda>c. c \<noteq> CHR '' '') cmd = [])"

definition commands_of :: "string \<Rightarrow> string list" where
  "commands_of stmt = filter (\<lambda>cmd. \<not> blank cmd) (split_commands False [] stmt)"

text \<open>
  A cursor that keeps a log of what it was asked to execute: for each call the commands
  of the statement and the parameters bound to it. Its \<open>fetchall\<close> hands back one row,
  so that a caller which drops the rows can be told from one that returns them.
\<close>

type_synonym submission = "string list \<times> pyval list"

definition statement_recorder :: "submission list cursor" where
  "statement_recorder =
     \<lparr> execute = (\<lambda>stmt params log. (Inr (), log @ [(commands_of stmt, params)])),
       fetchall = returns (PList [PTuple [PStr ''Fast 5'', PStr ''Action'']]),
       commit = returns () \<rparr>"

section \<open>Notebook 2: testing against a database\<close>

text \<open>
  \<^verbatim>\<open>
  def premium_user_count():
      cursor.execute("SELECT COUNT(*) FROM customers WHERE category = 'premium'")
      return cursor.fetchall()
  \<close>
  The function returns whatever \<open>fetchall\<close> returns.
\<close>

definition count_premium :: string where
  "count_premium = ''SELECT COUNT(*) FROM customers WHERE category = 'premium'' @ [CHR 0x27]"

definition premium_user_count :: "'s cursor \<Rightarrow> (pyval, 's) action" where
  "premium_user_count cursor =
     and_then (execute cursor count_premium []) (\<lambda>_. fetchall cursor)"

text \<open>
  The fixture is a generator with one \<open>yield\<close>:
  \<^verbatim>\<open>
  @pytest.fixture()
  def db_with_premium_customers():
      insert_into = 'INSERT INTO customers (first_name, last_name, category) VALUES (%s, %s, %s)'
      cursor.execute(insert_into, ('bob', 'smith', 'premium'))
      cursor.execute(insert_into, ('fred', 'samuel', 'standard'))
      cursor.commit()
      yield
      cursor.execute('DELETE FROM customers;')
      cursor.commit()
  \<close>
  A generator with one \<open>yield\<close> is two pieces of code: the one that runs up to the
  \<open>yield\<close> and produces the yielded value, and the one that runs when the generator is
  resumed. The bare \<open>yield\<close> yields \<open>None\<close>. There is no \<open>try\<close> in the generator.
\<close>

record ('c, 's) fixture =
  before_yield :: "('c, 's) action"
  after_yield :: "(unit, 's) action"

definition insert_into :: string where
  "insert_into = ''INSERT INTO customers (first_name, last_name, category) VALUES (%s, %s, %s)''"

definition db_with_premium_customers :: "'s cursor \<Rightarrow> (pyval, 's) fixture" where
  "db_with_premium_customers cursor =
     \<lparr> before_yield =
         and_then (execute cursor insert_into [PStr ''bob'', PStr ''smith'', PStr ''premium''])
           (\<lambda>_. and_then (execute cursor insert_into [PStr ''fred'', PStr ''samuel'', PStr ''standard''])
             (\<lambda>_. and_then (commit cursor) (\<lambda>_. returns PNone))),
       after_yield =
         and_then (execute cursor ''DELETE FROM customers;'' []) (\<lambda>_. commit cursor) \<rparr>"

text \<open>
  The test that takes the fixture's value as its argument (\<open>fixture_value\<close> below, as
  the argument's own name is the fixture's):
  \<^verbatim>\<open>
  def test_premium_user_count(db_with_premium_customers):
      assert premium_user_count() == 1
  \<close>
\<close>

definition test_premium_user_count :: "'s cursor \<Rightarrow> pyval \<Rightarrow> (pyval, 's) action" where
  "test_premium_user_count cursor fixture_value =
     and_then (premium_user_count cursor)
       (\<lambda>count. if count = PInt 1 then returns PNone else raise AssertionError)"

text \<open>
  The test of the notebook's summary, whose body is \<open>pass\<close>:
  \<^verbatim>\<open>
  def test_function(db_fixture):
      pass
  \<close>
\<close>

definition test_function :: "pyval \<Rightarrow> (pyval, 's) action" where
  "test_function db_fixture = returns PNone"

text \<open>
  The earlier test of the notebook, which sets up and cleans up inline; an assertion that
  fails leaves the function before the clean-up.
  \<^verbatim>\<open>
  def test_premium_user_count():
      insert_into = 'INSERT INTO customers (first_name, last_name, category) VALUES (%s, %s, %s)'
      cursor.execute(insert_into, ('bob', 'smith', 'premium'))
      cursor.execute(insert_into, ('fred', 'samuel', 'standard'))
      cursor.commit()
      assert premium_user_count() == 1
      cursor.execute('DELETE FROM customers;')
      cursor.commit()
  \<close>
\<close>

definition test_premium_user_count_inline :: "'s cursor \<Rightarrow> (pyval, 's) action" where
  "test_premium_user_count_inline cursor =
     and_then (execute cursor insert_into [PStr ''bob'', PStr ''smith'', PStr ''premium''])
       (\<lambda>_. and_then (execute cursor insert_into [PStr ''fred'', PStr ''samuel'', PStr ''standard''])
         (\<lambda>_. and_then (commit cursor)
           (\<lambda>_. and_then (premium_user_count cursor)
             (\<lambda>count. if count = PInt 1
                then and_then (execute cursor ''DELETE FROM customers;'' [])
                       (\<lambda>_. and_then (commit cursor) (\<lambda>_. returns PNone))
                else raise AssertionError))))"

subsection \<open>The store behind the cursor\<close>

text \<open>
  Modelled from the spec: the relational store that \<open>cursor\<close> talks to, which is the
  driver and the database server and is in no notebook. The spec has a connection that
  can "execute a statement with optional positional parameters, and commit pending
  changes", and test records with a first name, a last name and a category label. The
  store holds the \<open>customers\<close> table as the session sees it, the table as last
  committed, and the rows of the last query. It knows the three statements of notebook 2
  with their SQL meaning (insert one row from three string parameters, delete every row,
  count the rows whose category is \<open>premium\<close>) and rejects any other text. As in the
  Python database interface, the rows of a query are a list of tuples, here the one row
  with the one count, and \<open>fetchall\<close> without a query raises.
\<close>

record customer =
  first_name :: string
  last_name :: string
  category :: string

record store =
  customers :: "customer list"
  committed :: "customer list"
  result_set :: "pyval list option"

fun customer_of :: "pyval list \<Rightarrow> customer option" where
  "customer_of [PStr f, PStr l, PStr c] = Some \<lparr> first_name = f, last_name = l, category = c \<rparr>"
| "customer_of params = None"

definition store_execute :: "string \<Rightarrow> pyval list \<Rightarrow> (unit, store) action" where
  "store_execute stmt params db =
     (if stmt = insert_into then
        (case customer_of params of
           Some row \<Rightarrow> (Inr (), db\<lparr> customers := customers db @ [row], result_set := None \<rparr>)
         | None \<Rightarrow> (Inl (DatabaseError ''wrong parameters''), db))
      else if stmt = ''DELETE FROM customers;'' then
        (Inr (), db\<lparr> customers := [], result_set := None \<rparr>)
      else if stmt = count_premium then
        (Inr (), db\<lparr> result_set :=
           Some [PTuple [PInt (int (length (filter (\<lambda>row. category row = ''premium'') (customers db))))]] \<rparr>)
      else (Inl (DatabaseError ''statement not understood''), db))"

definition store_fetchall :: "(pyval, store) action" where
  "store_fetchall db =
     (case result_set db of
        None \<Rightarrow> (Inl (DatabaseError ''no results to fetch''), db)
      | Some rows \<Rightarrow> (Inr (PList rows), db\<lparr> result_set := Some [] \<rparr>))"

definition store_commit :: "(unit, store) action" where
  "store_commit db = (Inr (), db\<lparr> committed := customers db \<rparr>)"

definition store_cursor :: "store cursor" where
  "store_cursor = \<lparr> execute = store_execute, fetchall = store_fetchall, commit = store_commit \<rparr>"

definition empty_store :: store where
  "empty_store = \<lparr> customers = [], committed = [], result_set = None \<rparr>"

text \<open>
  Two more cursors, for the failure paths: one whose connection is gone, so that every
  call raises, and one on the store whose role may not delete from \<open>customers\<close>.
\<close>

definition closed_cursor :: "store cursor" where
  "closed_cursor =
     \<lparr> execute = (\<lambda>stmt params. raise (DatabaseError ''connection already closed'')),
       fetchall = raise (DatabaseError ''connection already closed''),
       commit = raise (DatabaseError ''connection already closed'') \<rparr>"

definition insert_only_cursor :: "store cursor" where
  "insert_only_cursor =
     \<lparr> execute = (\<lambda>stmt params.
         if stmt = ''DELETE FROM customers;'' then raise (DatabaseError ''permission denied'')
         else store_execute stmt params),
       fetchall = store_fetchall,
       commit = store_commit \<rparr>"

subsection \<open>The fixture runner\<close>

text \<open>
  Modelled from the spec: the runner that drives a fixture around a test, which is the
  test framework and is in no notebook. The spec's contract: "invoke setup; pass its
  result to body; after body returns or signals failure, invoke teardown unconditionally
  before propagating any failure from body"; "if setup itself fails, teardown is not
  invoked \<dots> and the failure propagates immediately"; "if teardown itself fails after a
  body failure, both failures should be surfaced". Setup is the fixture's code before the
  \<open>yield\<close>, teardown the code after it. The runner hands its caller the failures that
  were signalled, in the order they occurred, and the state it leaves; it completed
  normally when there are none.
\<close>

definition raised :: "exn + 'a \<Rightarrow> exn list" where
  "raised r = (case r of Inl e \<Rightarrow> [e] | Inr v \<Rightarrow> [])"

definition run_fixture :: "('c, 's) fixture \<Rightarrow> ('c \<Rightarrow> ('a, 's) action) \<Rightarrow> 's \<Rightarrow> exn list \<times> 's" where
  "run_fixture fx body s =
     (case before_yield fx s of
        (Inl e, s1) \<Rightarrow> ([e], s1)
      | (Inr ctx, s1) \<Rightarrow>
          (case body ctx s1 of (rb, s2) \<Rightarrow>
             (case after_yield fx s2 of (rt, s3) \<Rightarrow> (raised rb @ raised rt, s3))))"

text \<open>
  To count invocations, each phase is wrapped so that it writes an event into a log that
  travels with the state; the runner knows nothing of the log. The event of the body
  keeps the value the body was called with.
\<close>

datatype 'c event = SetupRan | BodyRan 'c | TeardownRan

definition traced :: "'c event \<Rightarrow> ('a, 's) action \<Rightarrow> ('a, 'c event list \<times> 's) action" where
  "traced ev m = (\<lambda>(log, s). case m s of (r, s') \<Rightarrow> (r, (log @ [ev], s')))"

definition traced_fixture :: "('c, 's) fixture \<Rightarrow> ('c, 'c event list \<times> 's) fixture" where
  "traced_fixture fx =
     \<lparr> before_yield = traced SetupRan (before_yield fx),
       after_yield = traced TeardownRan (after_yield fx) \<rparr>"

definition traced_body :: "('c \<Rightarrow> ('a, 's) action) \<Rightarrow> 'c \<Rightarrow> ('a, 'c event list \<times> 's) action" where
  "traced_body body ctx = traced (BodyRan ctx) (body ctx)"

section \<open>Facts about the runner and the store\<close>

text \<open>What a traced run leaves: the failures, the log of the phases and the state.\<close>

lemma run_fixture_traced:
  "run_fixture (traced_fixture fx) (traced_body body) (log, s) =
     (case before_yield fx s of
        (Inl e, s1) \<Rightarrow> ([e], (log @ [SetupRan], s1))
      | (Inr ctx, s1) \<Rightarrow>
          (raised (fst (body ctx s1)) @ raised (fst (after_yield fx (snd (body ctx s1)))),
           (log @ [SetupRan, BodyRan ctx, TeardownRan],
            snd (after_yield fx (snd (body ctx s1))))))"
  by (simp add: run_fixture_def traced_fixture_def traced_body_def traced_def
      split: prod.splits sum.splits)

lemma run_fixture_plain:
  "run_fixture fx body s =
     (case before_yield fx s of
        (Inl e, s1) \<Rightarrow> ([e], s1)
      | (Inr ctx, s1) \<Rightarrow>
          (raised (fst (body ctx s1)) @ raised (fst (after_yield fx (snd (body ctx s1)))),
           snd (after_yield fx (snd (body ctx s1)))))"
  by (simp add: run_fixture_def split: prod.splits sum.splits)

text \<open>Tracing changes neither the failures nor the state.\<close>

lemma trace_is_transparent:
  "run_fixture fx body s =
     (fst (run_fixture (traced_fixture fx) (traced_body body) (log, s)),
      snd (snd (run_fixture (traced_fixture fx) (traced_body body) (log, s))))"
  unfolding run_fixture_traced
  by (simp add: run_fixture_def split: prod.splits sum.splits)

lemma store_cursor_ops:
  "execute store_cursor = store_execute"
  "fetchall store_cursor = store_fetchall"
  "commit store_cursor = store_commit"
  by (simp_all add: store_cursor_def)

text \<open>The two halves of the fixture and the function under test, on the store.\<close>

lemma setup_on_store:
  "before_yield (db_with_premium_customers store_cursor) db =
     (Inr PNone,
      db\<lparr> customers := customers db @
            [\<lparr> first_name = ''bob'', last_name = ''smith'', category = ''premium'' \<rparr>,
             \<lparr> first_name = ''fred'', last_name = ''samuel'', category = ''standard'' \<rparr>],
          committed := customers db @
            [\<lparr> first_name = ''bob'', last_name = ''smith'', category = ''premium'' \<rparr>,
             \<lparr> first_name = ''fred'', last_name = ''samuel'', category = ''standard'' \<rparr>],
          result_set := None \<rparr>)"
  by (simp add: db_with_premium_customers_def store_cursor_def and_then_def returns_def
      store_execute_def store_commit_def)

lemma teardown_on_store:
  "after_yield (db_with_premium_customers store_cursor) db =
     (Inr (), db\<lparr> customers := [], committed := [], result_set := None \<rparr>)"
  by (simp add: db_with_premium_customers_def store_cursor_def and_then_def
      store_execute_def store_commit_def insert_into_def)

lemma count_on_store:
  "premium_user_count store_cursor db =
     (Inr (PList [PTuple [PInt (int (length
        (filter (\<lambda>row. category row = ''premium'') (customers db))))]]),
      db\<lparr> result_set := Some [] \<rparr>)"
  by (simp add: premium_user_count_def store_cursor_def and_then_def
      store_execute_def store_fetchall_def insert_into_def count_premium_def)

text \<open>
  Whatever the cursor, a \<open>fetchall\<close> that returns a list of rows makes the test's
  comparison with \<open>1\<close> false.
\<close>

lemma assertion_fails_on_rows:
  assumes "execute cursor count_premium [] s = (Inr (), s1)"
    and "fetchall cursor s1 = (Inr (PList rows), s2)"
  shows "test_premium_user_count cursor ctx s = (Inl AssertionError, s2)"
  using assms
  by (simp add: test_premium_user_count_def premium_user_count_def and_then_def raise_def)

lemma test_on_store:
  "test_premium_user_count store_cursor ctx db =
     (Inl AssertionError, db\<lparr> result_set := Some [] \<rparr>)"
  by (simp add: test_premium_user_count_def and_then_def count_on_store raise_def)

text \<open>
  The inline test never reaches its clean-up on the store: the two rows it inserted stay
  in the table.
\<close>

lemma inline_test_leaves_rows:
  "customers (snd (test_premium_user_count_inline store_cursor db)) =
     customers db @
       [\<lparr> first_name = ''bob'', last_name = ''smith'', category = ''premium'' \<rparr>,
        \<lparr> first_name = ''fred'', last_name = ''samuel'', category = ''standard'' \<rparr>]"
  by (simp add: test_premium_user_count_inline_def and_then_def count_on_store raise_def
      store_cursor_ops store_execute_def store_commit_def)

lemma commands_of_template:
  "commands_of ''SELECT * FROM movies WHERE genre = %s;'' =
     [''SELECT * FROM movies WHERE genre = %s'']"
  by (simp add: commands_of_def blank_def)

text \<open>The fixture over the two cursors of the failure paths.\<close>

lemma setup_on_closed_cursor:
  "before_yield (db_with_premium_customers closed_cursor) db =
     (Inl (DatabaseError ''connection already closed''), db)"
  by (simp add: db_with_premium_customers_def closed_cursor_def and_then_def raise_def)

lemma insert_only_cursor_ops:
  "execute insert_only_cursor insert_into = store_execute insert_into"
  "execute insert_only_cursor count_premium = store_execute count_premium"
  "execute insert_only_cursor ''DELETE FROM customers;'' =
     (\<lambda>params. raise (DatabaseError ''permission denied''))"
  "fetchall insert_only_cursor = store_fetchall"
  "commit insert_only_cursor = store_commit"
  by (simp_all add: insert_only_cursor_def insert_into_def count_premium_def)

lemma setup_on_insert_only:
  "before_yield (db_with_premium_customers insert_only_cursor) db =
     before_yield (db_with_premium_customers store_cursor) db"
  by (simp add: db_with_premium_customers_def insert_only_cursor_ops store_cursor_ops)

lemma test_on_insert_only:
  "test_premium_user_count insert_only_cursor ctx db =
     test_premium_user_count store_cursor ctx db"
  by (simp add: test_premium_user_count_def premium_user_count_def
      insert_only_cursor_ops store_cursor_ops)

lemma teardown_on_insert_only:
  "after_yield (db_with_premium_customers insert_only_cursor) db =
     (Inl (DatabaseError ''permission denied''), db)"
  by (simp add: db_with_premium_customers_def insert_only_cursor_ops and_then_def raise_def)

section \<open>The fixture runner on every exit path of the body\<close>

text \<open>
  Claim C1. When the body signals a failure \<open>e\<close>, the runner still runs the teardown:
  the log of the run is setup, body, teardown, each once, and the failures handed to the
  caller start with \<open>e\<close> itself, followed by whatever the teardown raised. The body is
  reached only when the setup returned, which is the first assumption.
\<close>

theorem teardown_runs_when_body_fails:
  assumes "before_yield fx s = (Inr ctx, s1)"
    and "body ctx s1 = (Inl e, s2)"
  shows "run_fixture (traced_fixture fx) (traced_body body) ([], s) =
           (e # raised (fst (after_yield fx s2)),
            ([SetupRan, BodyRan ctx, TeardownRan], snd (after_yield fx s2)))"
  using assms by (simp add: run_fixture_traced raised_def)

text \<open>
  The notebook's own fixture and test on an empty table: the assertion fails, the
  teardown has run, the table is empty and the caller sees the \<open>AssertionError\<close>.
\<close>

theorem teardown_runs_when_body_fails_witness:
  "run_fixture (traced_fixture (db_with_premium_customers store_cursor))
     (traced_body (test_premium_user_count store_cursor)) ([], empty_store) =
     ([AssertionError],
      ([SetupRan, BodyRan PNone, TeardownRan],
       \<lparr> customers = [], committed = [], result_set = None \<rparr>))"
  using teardown_runs_when_body_fails
    [where body = "test_premium_user_count store_cursor",
     OF setup_on_store [of empty_store] test_on_store]
  by (simp add: teardown_on_store raised_def empty_store_def)

text \<open>
  Claim C2, as amended. When the body completes normally, the runner has run setup, then
  the body on the value that setup produced, then teardown, each once and in that order,
  whatever the teardown does. The failures it hands its caller are those of the teardown
  and no others: the runner completes normally exactly when the teardown does. The body
  is reached only when the setup returned, which is the first assumption.
\<close>

theorem phases_in_order_when_body_returns:
  assumes "before_yield fx s = (Inr ctx, s1)"
    and "body ctx s1 = (Inr v, s2)"
  shows "run_fixture (traced_fixture fx) (traced_body body) ([], s) =
           (raised (fst (after_yield fx s2)),
            ([SetupRan, BodyRan ctx, TeardownRan], snd (after_yield fx s2)))
       \<and> (fst (run_fixture (traced_fixture fx) (traced_body body) ([], s)) = []) =
           (fst (after_yield fx s2) = Inr ())"
  using assms by (simp add: run_fixture_traced raised_def split: sum.splits)

text \<open>The notebook's fixture around the test whose body is \<open>pass\<close>, on an empty table.\<close>

theorem phases_in_order_when_body_returns_witness:
  "run_fixture (traced_fixture (db_with_premium_customers store_cursor))
     (traced_body test_function) ([], empty_store) =
     ([], ([SetupRan, BodyRan PNone, TeardownRan],
       \<lparr> customers = [], committed = [], result_set = None \<rparr>))"
proof -
  have body: "test_function PNone s = (Inr PNone, s)" for s :: store
    by (simp add: test_function_def returns_def)
  from phases_in_order_when_body_returns
    [where body = test_function, OF setup_on_store [of empty_store] body]
  show ?thesis by (simp add: teardown_on_store raised_def empty_store_def)
qed

text \<open>
  The claim as worded has the runner complete normally whenever the body does. Over a role
  that may not delete, the setup returns and the body \<open>pass\<close> returns, the three phases
  run in order, and the runner hands its caller the failure of the teardown.
\<close>

theorem runner_fails_when_only_teardown_fails_counterexample:
  "fst (before_yield (db_with_premium_customers insert_only_cursor) empty_store) = Inr PNone
   \<and> fst (test_function PNone
        (snd (before_yield (db_with_premium_customers insert_only_cursor) empty_store))) =
       Inr PNone
   \<and> run_fixture (traced_fixture (db_with_premium_customers insert_only_cursor))
        (traced_body test_function) ([], empty_store) =
       ([DatabaseError ''permission denied''],
        ([SetupRan, BodyRan PNone, TeardownRan],
         \<lparr> customers =
             [\<lparr> first_name = ''bob'', last_name = ''smith'', category = ''premium'' \<rparr>,
              \<lparr> first_name = ''fred'', last_name = ''samuel'', category = ''standard'' \<rparr>],
           committed =
             [\<lparr> first_name = ''bob'', last_name = ''smith'', category = ''premium'' \<rparr>,
              \<lparr> first_name = ''fred'', last_name = ''samuel'', category = ''standard'' \<rparr>],
           result_set = None \<rparr>))
   \<and> fst (run_fixture (db_with_premium_customers insert_only_cursor) test_function
        empty_store) \<noteq> []"
proof (intro conjI)
  show "fst (before_yield (db_with_premium_customers insert_only_cursor) empty_store) =
          Inr PNone"
    by (simp add: setup_on_insert_only setup_on_store)
  show "fst (test_function PNone
          (snd (before_yield (db_with_premium_customers insert_only_cursor) empty_store))) =
          Inr PNone"
    by (simp add: test_function_def returns_def)
  show "run_fixture (traced_fixture (db_with_premium_customers insert_only_cursor))
          (traced_body test_function) ([], empty_store) =
        ([DatabaseError ''permission denied''],
         ([SetupRan, BodyRan PNone, TeardownRan],
          \<lparr> customers =
              [\<lparr> first_name = ''bob'', last_name = ''smith'', category = ''premium'' \<rparr>,
               \<lparr> first_name = ''fred'', last_name = ''samuel'', category = ''standard'' \<rparr>],
            committed =
              [\<lparr> first_name = ''bob'', last_name = ''smith'', category = ''premium'' \<rparr>,
               \<lparr> first_name = ''fred'', last_name = ''samuel'', category = ''standard'' \<rparr>],
            result_set = None \<rparr>))"
    by (simp add: run_fixture_traced setup_on_insert_only setup_on_store
        teardown_on_insert_only test_function_def returns_def raised_def empty_store_def)
  show "fst (run_fixture (db_with_premium_customers insert_only_cursor) test_function
          empty_store) \<noteq> []"
    by (simp add: run_fixture_plain setup_on_insert_only setup_on_store
        teardown_on_insert_only test_function_def returns_def raised_def)
qed

text \<open>
  Claim C3. When the setup fails, neither the body nor the teardown is run: the log holds
  the setup alone, the caller gets the failure of the setup, and the state is the one the
  setup left.
\<close>

theorem setup_failure_skips_body_and_teardown:
  assumes "before_yield fx s = (Inl e, s1)"
  shows "run_fixture (traced_fixture fx) (traced_body body) ([], s) =
           ([e], ([SetupRan], s1))"
  using assms by (simp add: run_fixture_traced)

theorem setup_failure_skips_body_and_teardown_witness:
  "run_fixture (traced_fixture (db_with_premium_customers closed_cursor))
     (traced_body (test_premium_user_count closed_cursor)) ([], empty_store) =
     ([DatabaseError ''connection already closed''], ([SetupRan], empty_store))"
  using setup_failure_skips_body_and_teardown
    [OF setup_on_closed_cursor [of empty_store],
     where body = "test_premium_user_count closed_cursor"]
  by simp

text \<open>
  Claim C4. When the teardown fails after the body has failed, the caller gets both
  failures, the body's first: the teardown's failure does not replace it.
\<close>

theorem teardown_failure_keeps_body_failure:
  assumes "before_yield fx s = (Inr ctx, s1)"
    and "body ctx s1 = (Inl e, s2)"
    and "after_yield fx s2 = (Inl e', s3)"
  shows "run_fixture (traced_fixture fx) (traced_body body) ([], s) =
           ([e, e'], ([SetupRan, BodyRan ctx, TeardownRan], s3))"
  using assms by (simp add: run_fixture_traced raised_def)

text \<open>
  The notebook's fixture and test over a role that may not delete: the assertion fails,
  then the \<open>DELETE\<close> is refused, and the two rows stay.
\<close>

theorem teardown_failure_keeps_body_failure_witness:
  "run_fixture (traced_fixture (db_with_premium_customers insert_only_cursor))
     (traced_body (test_premium_user_count insert_only_cursor)) ([], empty_store) =
     ([AssertionError, DatabaseError ''permission denied''],
      ([SetupRan, BodyRan PNone, TeardownRan],
       \<lparr> customers =
           [\<lparr> first_name = ''bob'', last_name = ''smith'', category = ''premium'' \<rparr>,
            \<lparr> first_name = ''fred'', last_name = ''samuel'', category = ''standard'' \<rparr>],
         committed =
           [\<lparr> first_name = ''bob'', last_name = ''smith'', category = ''premium'' \<rparr>,
            \<lparr> first_name = ''fred'', last_name = ''samuel'', category = ''standard'' \<rparr>],
         result_set = Some [] \<rparr>))"
  using teardown_failure_keeps_body_failure
    [where body = "test_premium_user_count insert_only_cursor",
     OF setup_on_insert_only [of empty_store, unfolded setup_on_store]
        test_on_insert_only [unfolded test_on_store] teardown_on_insert_only]
  by (simp add: empty_store_def)

section \<open>The worked scenario on the store\<close>

text \<open>
  Claim C5. On the store, the setup of \<open>db_with_premium_customers\<close> returns normally
  and appends exactly two rows, bob smith with category \<open>premium\<close> and fred samuel with
  category \<open>standard\<close>, and commits them. After a run of the fixture around any body,
  whatever the body did and whether it returned or raised, the table is empty, in the
  session and as committed. The last two conjuncts are the run around the notebook's test,
  whose assertion fails, and around a test that passes.
\<close>

theorem scenario_table_empty_after_fixture:
  "before_yield (db_with_premium_customers store_cursor) db =
     (Inr PNone,
      db\<lparr> customers := customers db @
            [\<lparr> first_name = ''bob'', last_name = ''smith'', category = ''premium'' \<rparr>,
             \<lparr> first_name = ''fred'', last_name = ''samuel'', category = ''standard'' \<rparr>],
          committed := customers db @
            [\<lparr> first_name = ''bob'', last_name = ''smith'', category = ''premium'' \<rparr>,
             \<lparr> first_name = ''fred'', last_name = ''samuel'', category = ''standard'' \<rparr>],
          result_set := None \<rparr>)
   \<and> customers (snd (run_fixture (db_with_premium_customers store_cursor) body db)) = []
   \<and> committed (snd (run_fixture (db_with_premium_customers store_cursor) body db)) = []
   \<and> run_fixture (db_with_premium_customers store_cursor)
         (test_premium_user_count store_cursor) empty_store =
       ([AssertionError], \<lparr> customers = [], committed = [], result_set = None \<rparr>)
   \<and> run_fixture (db_with_premium_customers store_cursor) test_function empty_store =
       ([], \<lparr> customers = [], committed = [], result_set = None \<rparr>)"
  by (simp add: run_fixture_plain setup_on_store teardown_on_store test_on_store raised_def
      test_function_def returns_def empty_store_def)

text \<open>
  Claim C6. The claim has \<open>premium_user_count\<close> yield \<open>1\<close> on a table with exactly one
  premium row, so that the test's assertion holds. The function returns the value of
  \<open>fetchall\<close>, which is the list of rows \<open>[(1,)]\<close> and not the number: on every such
  table the comparison with \<open>1\<close> is false and the test raises \<open>AssertionError\<close>.
\<close>

theorem premium_user_count_returns_rows:
  assumes "length (filter (\<lambda>row. category row = ''premium'') (customers db)) = 1"
  shows "fst (premium_user_count store_cursor db) = Inr (PList [PTuple [PInt 1]])
       \<and> fst (premium_user_count store_cursor db) \<noteq> Inr (PInt 1)
       \<and> fst (test_premium_user_count store_cursor ctx db) = Inl AssertionError"
  using assms by (simp add: count_on_store test_on_store)

text \<open>The table as the fixture's setup leaves it, starting from an empty one.\<close>

theorem premium_user_count_returns_rows_witness:
  "fst (premium_user_count store_cursor
     \<lparr> customers =
         [\<lparr> first_name = ''bob'', last_name = ''smith'', category = ''premium'' \<rparr>,
          \<lparr> first_name = ''fred'', last_name = ''samuel'', category = ''standard'' \<rparr>],
       committed =
         [\<lparr> first_name = ''bob'', last_name = ''smith'', category = ''premium'' \<rparr>,
          \<lparr> first_name = ''fred'', last_name = ''samuel'', category = ''standard'' \<rparr>],
       result_set = None \<rparr>) = Inr (PList [PTuple [PInt 1]])
   \<and> fst (test_premium_user_count store_cursor PNone
     \<lparr> customers =
         [\<lparr> first_name = ''bob'', last_name = ''smith'', category = ''premium'' \<rparr>,
          \<lparr> first_name = ''fred'', last_name = ''samuel'', category = ''standard'' \<rparr>],
       committed =
         [\<lparr> first_name = ''bob'', last_name = ''smith'', category = ''premium'' \<rparr>,
          \<lparr> first_name = ''fred'', last_name = ''samuel'', category = ''standard'' \<rparr>],
       result_set = None \<rparr>) = Inl AssertionError"
  using premium_user_count_returns_rows [of
     "\<lparr> customers =
         [\<lparr> first_name = ''bob'', last_name = ''smith'', category = ''premium'' \<rparr>,
          \<lparr> first_name = ''fred'', last_name = ''samuel'', category = ''standard'' \<rparr>],
       committed =
         [\<lparr> first_name = ''bob'', last_name = ''smith'', category = ''premium'' \<rparr>,
          \<lparr> first_name = ''fred'', last_name = ''samuel'', category = ''standard'' \<rparr>],
       result_set = None \<rparr>" PNone]
  by simp

text \<open>
  Claim C9. The teardown of the fixture returns normally on every state of the store and
  leaves the table empty, in the session and as committed, whatever it held. It does not
  undo the setup: run after the setup it yields the empty table, not the table the setup
  started from, and a row that was there before the fixture ran (alice jones below) is
  gone after the run.
\<close>

theorem teardown_empties_any_table:
  "after_yield (db_with_premium_customers store_cursor) db =
     (Inr (), db\<lparr> customers := [], committed := [], result_set := None \<rparr>)
   \<and> customers (snd (after_yield (db_with_premium_customers store_cursor)
         (snd (before_yield (db_with_premium_customers store_cursor) db)))) = []
   \<and> customers (snd (run_fixture (db_with_premium_customers store_cursor) test_function
         \<lparr> customers = [\<lparr> first_name = ''alice'', last_name = ''jones'', category = ''premium'' \<rparr>],
           committed = [\<lparr> first_name = ''alice'', last_name = ''jones'', category = ''premium'' \<rparr>],
           result_set = None \<rparr>)) = []"
  by (simp add: run_fixture_plain setup_on_store teardown_on_store)

section \<open>Interpolated and parameterized statements\<close>

text \<open>
  Claim C7. For every string \<open>genre\<close>, the parameterized \<open>movies_by_genre\<close> submits one
  command, the fixed \<open>SELECT\<close> with its placeholder, and \<open>genre\<close> reaches the cursor only
  as the one bound parameter: the commands of the submission do not depend on it, so any
  two inputs lead to the same commands.
\<close>

theorem parameterized_statement_is_fixed:
  "movies_by_genre_param statement_recorder genre log =
     (Inr PNone, log @ [([''SELECT * FROM movies WHERE genre = %s''], [PStr genre])])
   \<and> map fst (snd (movies_by_genre_param statement_recorder genre log)) =
       map fst (snd (movies_by_genre_param statement_recorder genre' log))"
  by (simp add: movies_by_genre_param_def statement_recorder_def and_then_def returns_def
      commands_of_template)

text \<open>
  Claim C8. The two versions differ. On the input \<open>action; DROP table users;\<close> the
  interpolating version submits two commands, the second being the \<open>DROP\<close> that came
  with the input, and no parameter; the parameterized version submits the one fixed
  command, on this input and on every other.
\<close>

theorem interpolation_differs_from_parameterization:
  "snd (movies_by_genre_fstring statement_recorder ''action; DROP table users;'' []) =
     [([''SELECT * FROM movies WHERE genre = action'', '' DROP table users''], [])]
   \<and> snd (movies_by_genre_param statement_recorder ''action; DROP table users;'' []) =
     [([''SELECT * FROM movies WHERE genre = %s''], [PStr ''action; DROP table users;''])]
   \<and> (\<forall>genre. map fst (snd (movies_by_genre_param statement_recorder genre [])) =
     [[''SELECT * FROM movies WHERE genre = %s'']])
   \<and> movies_by_genre_fstring statement_recorder ''action; DROP table users;'' [] \<noteq>
     movies_by_genre_param statement_recorder ''action; DROP table users;'' []"
  by (simp add: movies_by_genre_fstring_def movies_by_genre_param_def statement_recorder_def
      and_then_def returns_def commands_of_def blank_def)

text \<open>
  Claim C10. Neither version of \<open>movies_by_genre\<close> returns the fetched rows. Over any
  cursor: when \<open>execute\<close> and \<open>fetchall\<close> return, the call returns \<open>None\<close> and the rows
  are dropped; and a call that returns at all returns \<open>None\<close> (the only other outcome is
  an exception of the cursor).
\<close>

theorem movies_by_genre_returns_None:
  "(execute cursor (''SELECT * FROM movies WHERE genre = '' @ genre @ '';'') [] s = (Inr (), s1)
      \<and> fetchall cursor s1 = (Inr rows, s2)
      \<longrightarrow> movies_by_genre_fstring cursor genre s = (Inr PNone, s2))
   \<and> (execute cursor ''SELECT * FROM movies WHERE genre = %s;'' [PStr genre] s = (Inr (), t1)
      \<and> fetchall cursor t1 = (Inr rows', t2)
      \<longrightarrow> movies_by_genre_param cursor genre s = (Inr PNone, t2))
   \<and> (\<forall>v. fst (movies_by_genre_fstring cursor genre s) = Inr v \<longrightarrow> v = PNone)
   \<and> (\<forall>v. fst (movies_by_genre_param cursor genre s) = Inr v \<longrightarrow> v = PNone)"
  by (auto simp add: movies_by_genre_fstring_def movies_by_genre_param_def and_then_def
      returns_def split: prod.splits sum.splits)

text \<open>On the recording cursor, whose \<open>fetchall\<close> has a row to give, both return \<open>None\<close>.\<close>

theorem movies_by_genre_returns_None_witness:
  "fst (movies_by_genre_fstring statement_recorder ''action'' []) = Inr PNone
   \<and> fst (movies_by_genre_param statement_recorder ''action'' []) = Inr PNone
   \<and> fst (fetchall statement_recorder []) =
       Inr (PList [PTuple [PStr ''Fast 5'', PStr ''Action'']])"
  using movies_by_genre_returns_None [of statement_recorder "''action''" "[]"
      "[(commands_of ''SELECT * FROM movies WHERE genre = action;'', [])]"
      "PList [PTuple [PStr ''Fast 5'', PStr ''Action'']]"
      "[(commands_of ''SELECT * FROM movies WHERE genre = action;'', [])]"
      "[(commands_of ''SELECT * FROM movies WHERE genre = %s;'', [PStr ''action''])]"
      "PList [PTuple [PStr ''Fast 5'', PStr ''Action'']]"
      "[(commands_of ''SELECT * FROM movies WHERE genre = %s;'', [PStr ''action''])]"]
  by (simp add: statement_recorder_def returns_def)

end
